theory Spec2Isabelle
  imports Complex_Main
begin

section \<open>Data model: the irradiance table\<close>

text \<open>
  A DataFrame as \<^verbatim>\<open>correct_missing_data.py\<close> receives it: a row of column labels and the
  rows below it. The first two columns identify the time slot (\<^verbatim>\<open>'Date'\<close>, a timestamp, and
  \<^verbatim>\<open>'Day'\<close>, an integer); every later column holds one year's irradiance. A year cell is a
  float that may be NaN: it is modelled as \<open>real option\<close>, with \<open>None\<close> for NaN, so the
  arithmetic below is exact arithmetic on the reals (rounding, overflow and the infinities
  of float64 are outside the model). The row index is the default \<^verbatim>\<open>RangeIndex\<close>: the label
  of a row is its position.
\<close>

datatype label = Name string | Year int

datatype timestamp = Timestamp nat nat nat nat nat nat

type_synonym cell = "real option"

record row =
  date :: timestamp
  day :: int
  irradiance :: "cell list"

record dataframe =
  columns :: "label list"
  rows :: "row list"


section \<open>The interpreter state: objects and standard output\<close>

text \<open>
  DataFrames are mutable objects, and \<^verbatim>\<open>fill_missing_irradiance_data\<close> copies its argument
  before it writes. The store is a list of frames, an object's address is its position in
  the list, and a new object is appended at the end. What \<^verbatim>\<open>print\<close> writes is kept as a
  list of messages, one per call, carrying the values the f-strings interpolate.
\<close>

datatype message =
    IrradianceColumns "label list"
  | InitialNaN nat
  | FinalNaN nat

record world =
  heap :: "dataframe list"
  stdout :: "message list"

datatype error = AttributeError

definition lookup :: "world \<Rightarrow> nat \<Rightarrow> dataframe option" where
  "lookup w a = (if a < length (heap w) then Some (heap w ! a) else None)"

definition store :: "nat \<Rightarrow> dataframe \<Rightarrow> world \<Rightarrow> world" where
  "store a t w = (if a < length (heap w) then w\<lparr>heap := (heap w)[a := t]\<rparr> else w)"

text \<open>\<^verbatim>\<open>df.copy()\<close>: a deep copy in a new object; an argument that is no DataFrame has no such method.\<close>

definition copy :: "nat \<Rightarrow> world \<Rightarrow> (error + nat) \<times> world" where
  "copy df w =
     (case lookup w df of
        None \<Rightarrow> (Inl AttributeError, w)
      | Some t \<Rightarrow> (Inr (length (heap w)), w\<lparr>heap := heap w @ [t]\<rparr>))"

definition print :: "message \<Rightarrow> world \<Rightarrow> world" where
  "print m w = w\<lparr>stdout := stdout w @ [m]\<rparr>"

section \<open>The imputer\<close>

text \<open>\<^verbatim>\<open>df_filled.columns[2:]\<close>: every column after the first two.\<close>

definition irradiance_cols :: "dataframe \<Rightarrow> label list" where
  "irradiance_cols t = drop 2 (columns t)"

text \<open>
  \<^verbatim>\<open>df_filled[irradiance_cols].isnull().sum().sum()\<close>: the number of NaN cells among the year
  columns of the whole frame.
\<close>

definition isnull_sum_sum :: "dataframe \<Rightarrow> nat" where
  "isnull_sum_sum t = sum_list (map (\<lambda>r. length (filter (\<lambda>c. c = None) (irradiance r))) (rows t))"

text \<open>
  \<^verbatim>\<open>np.nanmean\<close>: NaN cells are replaced by zero and summed with the others, the sum is
  divided by the number of cells that are not NaN, and a slice with no such cell (empty,
  or all NaN) gives NaN with a warning, not an exception.
\<close>

definition nanmean :: "cell list \<Rightarrow> cell" where
  "nanmean xs =
     (let cnt = length (filter (\<lambda>c. c \<noteq> None) xs);
          tot = sum_list (map (\<lambda>c. case c of None \<Rightarrow> 0 | Some v \<Rightarrow> v) xs)
      in if cnt = 0 then None else Some (tot / real cnt))"

definition isnan :: "cell \<Rightarrow> bool" where
  "isnan c = (c = None)"

text \<open>\<^verbatim>\<open>Series.fillna(value)\<close>: every NaN cell becomes \<open>value\<close>, every other cell stays.\<close>

definition fillna :: "cell list \<Rightarrow> cell \<Rightarrow> cell list" where
  "fillna xs val = map (\<lambda>c. case c of None \<Rightarrow> val | Some v \<Rightarrow> Some v) xs"

text \<open>
  \<^verbatim>\<open>df_filled.iterrows()\<close>: the pairs of index label and row, read from the frame once,
  when the loop starts.
\<close>

definition iterrows :: "dataframe \<Rightarrow> (nat \<times> row) list" where
  "iterrows t = zip [0..<length (rows t)] (rows t)"

text \<open>
  \<^verbatim>\<open>df_filled.loc[index, irradiance_cols] = values\<close>: the year cells of the row labelled
  \<open>index\<close> are replaced, the identifier cells of that row and all other rows stay. The
  loop only passes labels that \<open>iterrows\<close> produced from the same frame, which are in range;
  for any other label the model leaves the frame as it is.
\<close>

definition loc_set :: "dataframe \<Rightarrow> nat \<Rightarrow> cell list \<Rightarrow> dataframe" where
  "loc_set t index vals =
     (if index < length (rows t)
      then t\<lparr>rows := (rows t)[index := (rows t ! index)\<lparr>irradiance := vals\<rparr>]\<rparr>
      else t)"

text \<open>The body of the \<^verbatim>\<open>for index, row in df_filled.iterrows()\<close> loop (lines 35 to 48).\<close>

definition loop_body :: "nat \<Rightarrow> nat \<times> row \<Rightarrow> world \<Rightarrow> world" where
  "loop_body df_filled ir w =
     (let index = fst ir;
          irradiance_values_in_row = irradiance (snd ir);
          row_mean = nanmean irradiance_values_in_row
      in if \<not> isnan row_mean
         then store df_filled
                (loc_set (heap w ! df_filled) index (fillna (irradiance (snd ir)) row_mean)) w
         else w)"

definition fill_missing_irradiance_data :: "nat \<Rightarrow> world \<Rightarrow> (error + nat) \<times> world" where
  "fill_missing_irradiance_data df w =
     (case copy df w of
        (Inl e, w0) \<Rightarrow> (Inl e, w0)
      | (Inr df_filled, w1) \<Rightarrow>
          (let cols = irradiance_cols (heap w1 ! df_filled);
               w2 = print (IrradianceColumns cols) w1;
               w3 = print (InitialNaN (isnull_sum_sum (heap w2 ! df_filled))) w2;
               w4 = fold (loop_body df_filled) (iterrows (heap w3 ! df_filled)) w3;
               w5 = print (FinalNaN (isnull_sum_sum (heap w4 ! df_filled))) w4
           in (Inr df_filled, w5)))"

text \<open>The table a call returns, read from the store after the call.\<close>

definition returned :: "nat \<Rightarrow> world \<Rightarrow> dataframe option" where
  "returned df w =
     (case fill_missing_irradiance_data df w of
        (Inl e, w') \<Rightarrow> None
      | (Inr r, w') \<Rightarrow> lookup w' r)"

section \<open>The plotting script\<close>







datatype 'a run = Exit | Done 'a








section \<open>What the loop computes, row by row\<close>

text \<open>
  Two readings of the loop used in the proofs: \<open>body_frame\<close> is the loop body as a function of
  the frame \<^verbatim>\<open>df_filled\<close> alone, and \<open>fill_row\<close> is what an iteration does to the row it
  visits. \<open>imputed\<close> applies \<open>fill_row\<close> to every row.
\<close>

definition body_frame :: "nat \<times> row \<Rightarrow> dataframe \<Rightarrow> dataframe" where
  "body_frame ir t =
     (if \<not> isnan (nanmean (irradiance (snd ir)))
      then loc_set t (fst ir) (fillna (irradiance (snd ir)) (nanmean (irradiance (snd ir))))
      else t)"

definition fill_row :: "row \<Rightarrow> row" where
  "fill_row r =
     (case nanmean (irradiance r) of
        None \<Rightarrow> r
      | Some m \<Rightarrow> r\<lparr>irradiance := fillna (irradiance r) (Some m)\<rparr>)"

definition imputed :: "dataframe \<Rightarrow> dataframe" where
  "imputed t = t\<lparr>rows := map fill_row (rows t)\<rparr>"

text \<open>
  The vocabulary of the specification: the year cells of row \<open>i\<close>, the cell of row \<open>i\<close> in
  year column \<open>j\<close>, the values of a row that are not null, and their arithmetic mean (the
  sum divided by how many there are).
\<close>

definition year_cells :: "dataframe \<Rightarrow> nat \<Rightarrow> cell list" where
  "year_cells t i = irradiance (rows t ! i)"


fun observed :: "cell list \<Rightarrow> real list" where
  "observed [] = []"
| "observed (None # xs) = observed xs"
| "observed (Some v # xs) = v # observed xs"

definition arithmetic_mean :: "real list \<Rightarrow> real" where
  "arithmetic_mean vs = sum_list vs / real (length vs)"



section \<open>Example tables\<close>

text \<open>
  The frame that the script builds under \<^verbatim>\<open>if __name__ == "__main__"\<close> (five time slots, four
  years, five NaN cells), and the two example rows of the specification: one with two
  readings and two gaps, one with no reading at all.
\<close>

definition sample_df :: dataframe where
  "sample_df =
     \<lparr>columns = [Name ''Date'', Name ''Day'', Year 2013, Year 2014, Year 2015, Year 2016],
      rows =
       [\<lparr>date = Timestamp 2023 1 1 0 0 0, day = 1,
         irradiance = [Some 0.1, Some 0.15, None, Some 0.12]\<rparr>,
        \<lparr>date = Timestamp 2023 1 1 0 5 0, day = 1,
         irradiance = [Some 0.2, None, Some 0.22, Some 0.23]\<rparr>,
        \<lparr>date = Timestamp 2023 1 1 0 10 0, day = 1,
         irradiance = [None, Some 0.35, Some 0.32, Some 0.33]\<rparr>,
        \<lparr>date = Timestamp 2023 1 1 0 15 0, day = 1,
         irradiance = [Some 0.4, Some 0.45, None, Some 0.43]\<rparr>,
        \<lparr>date = Timestamp 2023 1 1 0 20 0, day = 1,
         irradiance = [Some 0.5, Some 0.55, Some 0.52, None]\<rparr>]\<rparr>"

definition sample_world :: world where
  "sample_world = \<lparr>heap = [sample_df], stdout = []\<rparr>"








section \<open>The loop writes \<open>fill_row\<close> of every row\<close>

lemma store_same: "a < length (heap w) \<Longrightarrow> store a (heap w ! a) w = w"
  by (simp add: store_def)

lemma loop_body_frame:
  "a < length (heap w) \<Longrightarrow> loop_body a ir w = store a (body_frame ir (heap w ! a)) w"
  by (simp add: loop_body_def body_frame_def Let_def store_same)

lemma heap_store: "a < length (heap w) \<Longrightarrow> heap (store a t w) ! a = t"
  by (simp add: store_def)

lemma length_heap_store: "length (heap (store a t w)) = length (heap w)"
  by (simp add: store_def)

lemma store_store: "store a t (store a u w) = store a t w"
  by (simp add: store_def)

lemma fold_loop_body:
  "a < length (heap w) \<Longrightarrow>
   fold (loop_body a) xs w = store a (fold body_frame xs (heap w ! a)) w"
proof (induction xs arbitrary: w)
  case Nil
  then show ?case by (simp add: store_same)
next
  case (Cons x xs)
  let ?w = "store a (body_frame x (heap w ! a)) w"
  have len: "a < length (heap ?w)" using Cons.prems by (simp add: length_heap_store)
  have "fold (loop_body a) (x # xs) w = fold (loop_body a) xs ?w"
    using Cons.prems by (simp add: loop_body_frame)
  also have "\<dots> = store a (fold body_frame xs (heap ?w ! a)) ?w"
    using Cons.IH [OF len] .
  also have "\<dots> = store a (fold body_frame (x # xs) (heap w ! a)) w"
    using Cons.prems by (simp add: heap_store store_store)
  finally show ?case .
qed

lemma body_frame_row:
  assumes "n < length (rows t)" and "rows t ! n = r"
  shows "body_frame (n, r) t = t\<lparr>rows := (rows t)[n := fill_row r]\<rparr>"
proof (cases "nanmean (irradiance r)")
  case None
  then have "fill_row r = r" by (simp add: fill_row_def)
  moreover have "(rows t)[n := r] = rows t"
    using assms(2) list_update_id [of "rows t" n] by simp
  ultimately show ?thesis using None by (simp add: body_frame_def isnan_def)
next
  case (Some m)
  then have "fill_row r = r\<lparr>irradiance := fillna (irradiance r) (Some m)\<rparr>"
    by (simp add: fill_row_def)
  with Some assms show ?thesis by (simp add: body_frame_def isnan_def loc_set_def)
qed

lemma fold_body_frame_prefix:
  "n \<le> length (rows t) \<Longrightarrow>
   fold body_frame (take n (iterrows t)) t =
     t\<lparr>rows := map fill_row (take n (rows t)) @ drop n (rows t)\<rparr>"
proof (induction n)
  case 0
  then show ?case by simp
next
  case (Suc n)
  let ?rs = "rows t"
  let ?t = "t\<lparr>rows := map fill_row (take n ?rs) @ drop n ?rs\<rparr>"
  have n: "n < length ?rs" using Suc.prems by simp
  have it: "take (Suc n) (iterrows t) = take n (iterrows t) @ [(n, ?rs ! n)]"
    using n by (simp add: iterrows_def take_Suc_conv_app_nth)
  have nth: "rows ?t ! n = ?rs ! n"
    using n by (simp add: nth_append)
  have len: "n < length (rows ?t)" using n by simp
  have "fold body_frame (take (Suc n) (iterrows t)) t = body_frame (n, ?rs ! n) ?t"
    using Suc.IH n by (simp add: it)
  also have "\<dots> = ?t\<lparr>rows := (rows ?t)[n := fill_row (?rs ! n)]\<rparr>"
    using body_frame_row [OF len nth] .
  also have "\<dots> = t\<lparr>rows := map fill_row (take (Suc n) ?rs) @ drop (Suc n) ?rs\<rparr>"
    using n by (simp add: list_update_append take_Suc_conv_app_nth
        Cons_nth_drop_Suc [symmetric])
  finally show ?case .
qed

lemma fold_body_frame:
  "fold body_frame (iterrows t) t = t\<lparr>rows := map fill_row (rows t)\<rparr>"
  using fold_body_frame_prefix [of "length (rows t)" t] by (simp add: iterrows_def)

lemma fill_missing_irradiance_data_run:
  assumes "lookup w df = Some t"
  shows "fill_missing_irradiance_data df w =
     (Inr (length (heap w)),
      \<lparr>heap = heap w @ [imputed t],
       stdout = stdout w @ [IrradianceColumns (irradiance_cols t), InitialNaN (isnull_sum_sum t),
                  FinalNaN (isnull_sum_sum (imputed t))]\<rparr>)"
  using assms
  by (simp add: fill_missing_irradiance_data_def copy_def print_def Let_def fold_loop_body
      fold_body_frame imputed_def store_def lookup_def split: if_splits)

section \<open>Facts about one row\<close>

lemma returned_imputed: "lookup w df = Some t \<Longrightarrow> returned df w = Some (imputed t)"
  by (simp add: returned_def fill_missing_irradiance_data_run lookup_def)

lemma sum_list_observed:
  "sum_list (map (\<lambda>c. case c of None \<Rightarrow> 0 | Some v \<Rightarrow> v) xs) = sum_list (observed xs)"
  by (induction xs rule: observed.induct) simp_all

lemma length_observed: "length (filter (\<lambda>c. c \<noteq> None) xs) = length (observed xs)"
  by (induction xs rule: observed.induct) simp_all


lemma set_observed: "set (observed xs) = {v. Some v \<in> set xs}"
  by (induction xs rule: observed.induct) auto

lemma nanmean_observed:
  "nanmean xs = (if observed xs = [] then None else Some (arithmetic_mean (observed xs)))"
  unfolding nanmean_def Let_def sum_list_observed length_observed arithmetic_mean_def
  by simp

lemma irradiance_fill_row:
  "irradiance (fill_row r) =
     (if observed (irradiance r) = [] then irradiance r
      else fillna (irradiance r) (Some (arithmetic_mean (observed (irradiance r)))))"
  by (simp add: fill_row_def nanmean_observed)

lemma date_fill_row: "date (fill_row r) = date r"
  by (simp add: fill_row_def split: option.splits)

lemma day_fill_row: "day (fill_row r) = day r"
  by (simp add: fill_row_def split: option.splits)

lemma length_fillna: "length (fillna xs v) = length xs"
  by (simp add: fillna_def)

lemma length_irradiance_fill_row: "length (irradiance (fill_row r)) = length (irradiance r)"
  by (simp add: irradiance_fill_row length_fillna)


lemma rows_imputed: "rows (imputed t) = map fill_row (rows t)"
  by (simp add: imputed_def)

lemma columns_imputed: "columns (imputed t) = columns t"
  by (simp add: imputed_def)

lemma year_cells_imputed:
  "i < length (rows t) \<Longrightarrow> year_cells (imputed t) i = irradiance (fill_row (rows t ! i))"
  by (simp add: year_cells_def rows_imputed)




lemma lookup_sample_world: "lookup sample_world 0 = Some sample_df"
  by (simp add: lookup_def sample_world_def)



lemma map_date_imputed: "map date (rows (imputed t)) = map date (rows t)"
  by (simp add: rows_imputed date_fill_row)

lemma map_day_imputed: "map day (rows (imputed t)) = map day (rows t)"
  by (simp add: rows_imputed day_fill_row)

section \<open>A second pass changes nothing\<close>

lemma fillna_fillna: "fillna (fillna xs (Some m)) v = fillna xs (Some m)"
  by (simp add: fillna_def split: option.splits)

lemma observed_fillna: "xs \<noteq> [] \<Longrightarrow> observed (fillna xs (Some m)) \<noteq> []"
  by (cases xs) (simp_all add: fillna_def split: option.splits)

lemma observed_nonempty: "observed xs \<noteq> [] \<Longrightarrow> xs \<noteq> []"
  by auto

lemma fill_row_idem: "fill_row (fill_row r) = fill_row r"
proof (cases "observed (irradiance r) = []")
  case True
  then have "fill_row r = r"
    by (simp add: fill_row_def nanmean_observed)
  then show ?thesis by simp
next
  case False
  let ?m = "arithmetic_mean (observed (irradiance r))"
  have fr: "irradiance (fill_row r) = fillna (irradiance r) (Some ?m)"
    using False by (simp add: irradiance_fill_row)
  have ne: "observed (irradiance (fill_row r)) \<noteq> []"
    using False observed_fillna [OF observed_nonempty [OF False]] by (simp add: fr)
  then obtain m' where m': "nanmean (irradiance (fill_row r)) = Some m'"
    by (simp add: nanmean_observed)
  have "fill_row (fill_row r) =
      (fill_row r)\<lparr>irradiance := fillna (irradiance (fill_row r)) (Some m')\<rparr>"
    using m' by (simp add: fill_row_def [of "fill_row r"])
  also have "\<dots> = (fill_row r)\<lparr>irradiance := irradiance (fill_row r)\<rparr>"
    by (simp add: fr fillna_fillna)
  finally show ?thesis by simp
qed

lemma imputed_idem: "imputed (imputed t) = imputed t"
  by (simp add: imputed_def fill_row_idem)

section \<open>Tables without year columns\<close>




section \<open>The mean lies within the readings\<close>





section \<open>Counting missing cells\<close>











section \<open>Which cells are null after imputation\<close>



section \<open>Existing values are kept\<close>



section \<open>The filled value is the row mean\<close>



section \<open>Shape, identifiers and the input object\<close>

text \<open>
  Claim C4. The returned table has as many rows as the input, the same column labels in
  the same order, the same timestamps and days, and as many year cells in every row. It is
  a new object: its address was free before the call and differs from the argument's, the
  argument still holds the input table after the call, and so does every other object.
\<close>

theorem impute_preserves_shape_and_input:
  assumes "lookup w df = Some t"
  shows "\<exists>r w' t'. fill_missing_irradiance_data df w = (Inr r, w') \<and> lookup w' r = Some t' \<and>
     length (rows t') = length (rows t) \<and> columns t' = columns t \<and>
     map date (rows t') = map date (rows t) \<and> map day (rows t') = map day (rows t) \<and>
     (\<forall>i<length (rows t). length (year_cells t' i) = length (year_cells t i)) \<and>
     lookup w r = None \<and> r \<noteq> df \<and> lookup w' df = Some t \<and>
     (\<forall>a. a \<noteq> r \<longrightarrow> lookup w' a = lookup w a)"
proof -
  let ?r = "length (heap w)"
  let ?w = "\<lparr>heap = heap w @ [imputed t],
       stdout = stdout w @ [IrradianceColumns (irradiance_cols t), InitialNaN (isnull_sum_sum t),
                  FinalNaN (isnull_sum_sum (imputed t))]\<rparr>"
  have run: "fill_missing_irradiance_data df w = (Inr ?r, ?w)"
    using fill_missing_irradiance_data_run [OF assms] .
  have df: "df < length (heap w)" and t: "heap w ! df = t"
    using assms by (simp_all add: lookup_def split: if_splits)
  have new: "lookup ?w ?r = Some (imputed t)"
    by (simp add: lookup_def)
  have fresh: "lookup w ?r = None" "?r \<noteq> df"
    using df by (simp_all add: lookup_def)
  have old: "lookup ?w df = Some t"
    using df t by (simp add: lookup_def nth_append)
  have frame: "lookup ?w a = lookup w a" if "a \<noteq> ?r" for a
    using that by (auto simp: lookup_def nth_append)
  have shape: "length (rows (imputed t)) = length (rows t)" "columns (imputed t) = columns t"
    by (simp_all add: rows_imputed columns_imputed)
  have cells: "length (year_cells (imputed t) i) = length (year_cells t i)"
    if "i < length (rows t)" for i
    using that by (simp add: year_cells_def rows_imputed length_irradiance_fill_row)
  show ?thesis
    using run new fresh old frame shape cells map_date_imputed [of t] map_day_imputed [of t]
    by blast
qed

theorem impute_preserves_shape_and_input_witness:
  "lookup sample_world 0 = Some sample_df \<and>
   (\<exists>r w' t'. fill_missing_irradiance_data 0 sample_world = (Inr r, w') \<and>
     lookup w' r = Some t' \<and>
     length (rows t') = 5 \<and> columns t' = columns sample_df \<and>
     map date (rows t') = map date (rows sample_df) \<and>
     map day (rows t') = map day (rows sample_df) \<and>
     lookup sample_world r = None \<and> r \<noteq> 0 \<and> lookup w' 0 = Some sample_df)"
proof -
  have len: "length (rows sample_df) = 5" by (simp add: sample_df_def)
  show ?thesis
    using lookup_sample_world impute_preserves_shape_and_input [OF lookup_sample_world] len
    by auto
qed

section \<open>Idempotence\<close>

text \<open>
  Claim C5. Calling the function on the table it returned, in the store it left, returns
  an equal table: imputing twice gives what imputing once gives.
\<close>

theorem impute_idempotent:
  assumes "lookup w df = Some t"
  shows "\<exists>r w' t'. fill_missing_irradiance_data df w = (Inr r, w') \<and>
     lookup w' r = Some t' \<and> returned df w = Some t' \<and> returned r w' = Some t'"
proof -
  let ?r = "length (heap w)"
  let ?w = "\<lparr>heap = heap w @ [imputed t],
       stdout = stdout w @ [IrradianceColumns (irradiance_cols t), InitialNaN (isnull_sum_sum t),
                  FinalNaN (isnull_sum_sum (imputed t))]\<rparr>"
  have run: "fill_missing_irradiance_data df w = (Inr ?r, ?w)"
    using fill_missing_irradiance_data_run [OF assms] .
  have new: "lookup ?w ?r = Some (imputed t)"
    by (simp add: lookup_def)
  have again: "returned ?r ?w = Some (imputed t)"
    using returned_imputed [OF new] by (simp add: imputed_idem)
  show ?thesis
    using run new again returned_imputed [OF assms] by blast
qed

theorem impute_idempotent_witness:
  "lookup sample_world 0 = Some sample_df \<and>
   (\<exists>r w' t'. fill_missing_irradiance_data 0 sample_world = (Inr r, w') \<and>
     lookup w' r = Some t' \<and> returned 0 sample_world = Some t' \<and> returned r w' = Some t')"
  using lookup_sample_world impute_idempotent [OF lookup_sample_world] by simp

section \<open>Totality\<close>



section \<open>The reports\<close>



section \<open>Rows are independent\<close>



section \<open>The configuration of the plot\<close>



section \<open>Filled values stay within the row's readings\<close>



end
